theory Spec2Isabelle
  imports Main
begin

section \<open>Strings, patterns and the world of the intent service\<close>

text \<open>
  The program is \<^verbatim>\<open>src/chat/intent.js\<close>, the \<^verbatim>\<open>IntentService\<close> of a chat bot.
  A JavaScript string is a sequence of UTF-16 code units; a code unit is a natural
  number here, and \<open>js\<close> embeds an ASCII literal.
\<close>

type_synonym jsstring = "nat list"

definition js :: "string \<Rightarrow> jsstring" where
  "js s = map of_char s"

text \<open>
  A trigger is a regular expression object. The service only calls \<^verbatim>\<open>exec\<close> (or
  \<^verbatim>\<open>match\<close>) on it and reads \<^verbatim>\<open>matched.index\<close> and \<^verbatim>\<open>matched[0]\<close>, so a
  pattern is the function from the text to that pair, \<open>None\<close> for \<^verbatim>\<open>null\<close>.
  Patterns are supplied by plugins and by the configuration: they are inputs of the model.
  (A pattern with the global flag keeps a position between calls; such patterns are
  outside this model.)
\<close>

type_synonym regexp = "jsstring \<Rightarrow> (nat \<times> jsstring) option"

text \<open>\<^verbatim>\<open>route.room\<close> is the conversation id, \<^verbatim>\<open>null\<close> for a direct message.\<close>

record route =
  room :: "jsstring option"

text \<open>What a throw carries: the runtime's TypeError for calling \<^verbatim>\<open>undefined\<close>, its
  TypeError for reading \<^verbatim>\<open>.stack\<close> of \<^verbatim>\<open>null\<close> or \<^verbatim>\<open>undefined\<close>, its
  RangeError for an invalid array length, or what a handler throws: \<open>ThrownNullish\<close>
  for \<^verbatim>\<open>throw null\<close> and \<^verbatim>\<open>throw undefined\<close>, \<open>Thrown v\<close> for any other
  value.\<close>

datatype error =
    TypeError_not_a_function
  | TypeError_stack_of_nullish
  | RangeError_invalid_array_length
  | Thrown jsstring
  | ThrownNullish

text \<open>
  The observable effects, in order: \<^verbatim>\<open>route.send(text, args...)\<close>,
  \<^verbatim>\<open>route.direct().send(text, args...)\<close>, and the three \<^verbatim>\<open>console.log\<close> calls of
  the file. The time in the squelch log is \<open>None\<close> for an invalid date.
\<close>

datatype event =
    Sent route jsstring "jsstring option list"
  | SentDirect route jsstring "jsstring option list"
  | LogSquelchedUntil "jsstring option" "int option"
  | LogNotProcessing
  | LogUnhandledError jsstring error

text \<open>
  The mutable state a dispatch pass reads and writes: the squelch table
  (\<^verbatim>\<open>this.squelch_timers\<close>, keyed by room), the clock that \<^verbatim>\<open>moment()\<close> reads
  (milliseconds), and the effects so far. The pass reads the clock of the world it is in:
  time goes by only where a handler lets it.

  The table is a JavaScript array (line 11) used as a dictionary. The map holds what
  reading a key of that array gives: under a room, the time value of the moment stored
  there (no entry where the stored moment is an invalid date, whose difference to any
  time is \<^verbatim>\<open>NaN\<close>); under \<^verbatim>\<open>length\<close>, the length of the array (no entry for 0).
  What an array inherits from its prototype (\<^verbatim>\<open>constructor\<close>, \<^verbatim>\<open>push\<close>, ...) is not
  in the map, and the prototype is taken to be the one the array was created with: a
  table in which the key \<^verbatim>\<open>__proto__\<close> was written is outside this model.
\<close>

record world =
  squelch_timers :: "jsstring \<rightharpoonup> int"
  clock :: int
  trace :: "event list"

datatype 'a outcome = Returned 'a | Threw error

text \<open>
  A handler is plugin code bound to the bot: it may read and change the world (squelch a
  room, send replies, let time pass), and it returns or throws. For a listener the
  returned boolean is the truthiness of its return value; for a command it is ignored.
\<close>

type_synonym 'a handler = "route \<Rightarrow> 'a \<Rightarrow> world \<Rightarrow> bool outcome \<times> world"

record command =
  trigger :: regexp
  core :: bool
  func :: "jsstring list handler"

record listener =
  ltrigger :: regexp
  lfunc :: "jsstring handler"

record service =
  commands :: "command list"
  listeners :: "listener list"
  prompts :: "regexp list"

text \<open>\<^verbatim>\<open>loadCommand\<close> and \<^verbatim>\<open>loadListener\<close> push at the end.\<close>

definition loadCommand :: "command \<Rightarrow> service \<Rightarrow> service" where
  "loadCommand spec svc = svc\<lparr>commands := commands svc @ [spec]\<rparr>"

definition loadListener :: "listener \<Rightarrow> service \<Rightarrow> service" where
  "loadListener spec svc = svc\<lparr>listeners := listeners svc @ [spec]\<rparr>"

section \<open>splitArgs\<close>

text \<open>
  \<^verbatim>\<open>String.prototype.trim\<close> removes white space and line terminators at both ends
  (ECMAScript's WhiteSpace and LineTerminator code units; U+180E, which only older
  engines count as white space, is not in the set).
\<close>

definition js_whitespace :: "nat \<Rightarrow> bool" where
  "js_whitespace c \<longleftrightarrow>
     c \<in> {9, 10, 11, 12, 13, 32, 160, 5760, 8232, 8233, 8239, 8287, 12288, 65279}
     \<or> (8192 \<le> c \<and> c \<le> 8202)"

definition trim :: "jsstring \<Rightarrow> jsstring" where
  "trim s = rev (dropWhile js_whitespace (rev (dropWhile js_whitespace s)))"

text \<open>The two \<^verbatim>\<open>replace\<close> calls: U+2018, U+2019 become \<^verbatim>\<open>'\<close>; U+201C, U+201D
  become \<^verbatim>\<open>"\<close>.\<close>

definition straighten :: "jsstring \<Rightarrow> jsstring" where
  "straighten s =
     map (\<lambda>c. if c = 8220 \<or> c = 8221 then 34 else c)
       (map (\<lambda>c. if c = 8216 \<or> c = 8217 then 39 else c) s)"

text \<open>\<^verbatim>\<open>split(' ')\<close>: the pieces between single spaces, empty pieces kept; the empty
  string gives one empty piece.\<close>

fun split_space :: "jsstring \<Rightarrow> jsstring list" where
  "split_space [] = [[]]"
| "split_space (c # cs) =
     (if c = 32 then [] # split_space cs
      else (case split_space cs of
              [] \<Rightarrow> [[c]]
            | t # ts \<Rightarrow> (c # t) # ts))"

text \<open>\<^verbatim>\<open>join(' ')\<close>.\<close>

fun join_space :: "jsstring list \<Rightarrow> jsstring" where
  "join_space [] = []"
| "join_space [t] = t"
| "join_space (t # u # ts) = t @ 32 # join_space (u # ts)"

text \<open>
  The state of the \<^verbatim>\<open>forEach\<close>: \<^verbatim>\<open>args\<close>, \<^verbatim>\<open>quote\<close> (\<open>None\<close> for
  \<^verbatim>\<open>null\<close>) and \<^verbatim>\<open>quotedstring\<close>. \<^verbatim>\<open>token[0]\<close> and
  \<^verbatim>\<open>token[token.length - 1]\<close> are \<^verbatim>\<open>undefined\<close> on the empty token, which equals
  no quote. \<^verbatim>\<open>slice(1, -1)\<close> is \<open>butlast (tl token)\<close> (empty on a token of length 1),
  \<^verbatim>\<open>slice(1)\<close> is \<open>tl\<close>, \<^verbatim>\<open>slice(0, -1)\<close> is \<open>butlast\<close>.
\<close>

type_synonym split_state = "jsstring list \<times> nat option \<times> jsstring list"

fun split_token :: "split_state \<Rightarrow> jsstring \<Rightarrow> split_state" where
  "split_token (args, None, quotedstring) token =
     (if token \<noteq> [] \<and> (hd token = 34 \<or> hd token = 39) then
        (if last token = hd token then (args @ [butlast (tl token)], None, quotedstring)
         else (args, Some (hd token), [tl token]))
      else (args @ [token], None, quotedstring))"
| "split_token (args, Some q, quotedstring) token =
     (if token \<noteq> [] \<and> last token = q then
        (args @ [join_space (quotedstring @ [butlast token])], None, [])
      else (args, Some q, quotedstring @ [token]))"

definition splitArgs :: "jsstring \<Rightarrow> jsstring list" where
  "splitArgs message =
     (case foldl split_token ([], None, []) (split_space (straighten (trim message))) of
        (args, quote, quotedstring) \<Rightarrow>
          if quotedstring \<noteq> [] then args @ [join_space quotedstring] else args)"

section \<open>squelch and squelched\<close>

text \<open>
  \<^verbatim>\<open>this.squelch_timers[room] = time\<close> turns the room into a property key:
  \<^verbatim>\<open>null\<close> becomes the key \<^verbatim>\<open>"null"\<close>.
\<close>

definition room_key :: "jsstring option \<Rightarrow> jsstring" where
  "room_key r = (case r of None \<Rightarrow> js ''null'' | Some s \<Rightarrow> s)"

text \<open>
  A date holds a time value of at most 8.64e15 milliseconds either side of the epoch;
  beyond that it is an invalid date. \<open>moment_now\<close> is \<^verbatim>\<open>moment()\<close> and
  \<open>add_10_minutes\<close> is \<^verbatim>\<open>time.add(10, 'minute')\<close>, on time values, \<open>None\<close> for an
  invalid date.
\<close>

definition valid_date :: "int \<Rightarrow> bool" where
  "valid_date t \<longleftrightarrow> - 8640000000000000 \<le> t \<and> t \<le> 8640000000000000"

definition moment_now :: "world \<Rightarrow> int option" where
  "moment_now w = (if valid_date (clock w) then Some (clock w) else None)"

definition add_10_minutes :: "int option \<Rightarrow> int option" where
  "add_10_minutes time =
     (case time of
        None \<Rightarrow> None
      | Some t \<Rightarrow> if valid_date (t + 600000) then Some (t + 600000) else None)"

text \<open>
  The keys an array treats as indices: the decimal numerals of 0 to 4294967294, without
  leading zeros.
\<close>

definition decimal :: "jsstring \<Rightarrow> nat" where
  "decimal k = foldl (\<lambda>n c. 10 * n + (c - 48)) 0 k"

definition array_index :: "jsstring \<Rightarrow> nat option" where
  "array_index k =
     (if k \<noteq> [] \<and> list_all (\<lambda>c. 48 \<le> c \<and> c \<le> 57) k \<and> (k = [48] \<or> hd k \<noteq> 48)
         \<and> decimal k < 4294967295
      then Some (decimal k) else None)"

definition array_length :: "(jsstring \<rightharpoonup> int) \<Rightarrow> nat" where
  "array_length tbl = (case tbl (js ''length'') of None \<Rightarrow> 0 | Some n \<Rightarrow> nat n)"

text \<open>
  The assignment \<^verbatim>\<open>this.squelch_timers[key] = time\<close> of line 97, on an array.
  \<^item> The key \<^verbatim>\<open>length\<close> sets the length of the array to the number the moment
    converts to, its time value. A number that is not an integer from 0 to 4294967295
    (every present-day time value, and \<^verbatim>\<open>NaN\<close> for an invalid date) throws a RangeError
    and changes nothing; a smaller one becomes the length, and the elements at indices
    from it upwards are deleted.
  \<^item> Any other key stores the moment under it; an index at or above the length makes
    the length the index plus one.
\<close>

definition array_put ::
  "jsstring \<Rightarrow> int option \<Rightarrow> (jsstring \<rightharpoonup> int) \<Rightarrow> error + (jsstring \<rightharpoonup> int)" where
  "array_put key time tbl =
     (if key = js ''length'' then
        (case time of
           None \<Rightarrow> Inl RangeError_invalid_array_length
         | Some t \<Rightarrow>
             if 0 \<le> t \<and> t < 4294967296 then
               Inr ((\<lambda>k. case array_index k of
                           None \<Rightarrow> tbl k
                         | Some i \<Rightarrow> if t \<le> int i then None else tbl k)
                    (js ''length'' := (if t = 0 then None else Some t)))
             else Inl RangeError_invalid_array_length)
      else
        (case array_index key of
           None \<Rightarrow> Inr (tbl(key := time))
         | Some i \<Rightarrow>
             if array_length tbl \<le> i then Inr (tbl(key := time, js ''length'' \<mapsto> int i + 1))
             else Inr (tbl(key := time))))"

text \<open>
  \<^verbatim>\<open>squelch(room, squelched)\<close>: the flag is \<open>None\<close> when the argument is left out
  (\<^verbatim>\<open>undefined\<close>), and then counts as true. Ten minutes are 600000 milliseconds. When
  the assignment of line 97 throws, the log of line 98 is not reached.
\<close>

definition squelch :: "jsstring option \<Rightarrow> bool option \<Rightarrow> world \<Rightarrow> unit outcome \<times> world" where
  "squelch r flag w =
     (let squelched = (case flag of None \<Rightarrow> True | Some b \<Rightarrow> b);
          time = (if squelched then add_10_minutes (moment_now w) else moment_now w)
      in case array_put (room_key r) time (squelch_timers w) of
           Inl er \<Rightarrow> (Threw er, w)
         | Inr tbl \<Rightarrow>
             (Returned (),
              w\<lparr>squelch_timers := tbl, trace := trace w @ [LogSquelchedUntil r time]\<rparr>))"

text \<open>
  \<^verbatim>\<open>squelched(room)\<close>: \<^verbatim>\<open>room && this.squelch_timers[room]\<close> is falsy for
  \<^verbatim>\<open>null\<close>, for the empty string and for a room without an entry;
  \<^verbatim>\<open>moment().diff(t)\<close> is the clock minus \<open>t\<close>.
\<close>

definition squelched :: "world \<Rightarrow> jsstring option \<Rightarrow> bool" where
  "squelched w r =
     (case r of
        None \<Rightarrow> False
      | Some s \<Rightarrow>
          if s = [] then False
          else (case squelch_timers w s of
                  None \<Rightarrow> False
                | Some t \<Rightarrow> clock w - t < 0))"

section \<open>handleMessage\<close>

text \<open>Lines 118 to 125: the first prompt that matches, in configuration order.\<close>

fun first_prompt :: "regexp list \<Rightarrow> jsstring \<Rightarrow> (nat \<times> jsstring) option" where
  "first_prompt [] message = None"
| "first_prompt (p # ps) message =
     (case p message of
        Some matched \<Rightarrow> Some matched
      | None \<Rightarrow> first_prompt ps message)"

text \<open>
  \<open>isCommand\<close> and the value of the variable \<^verbatim>\<open>message\<close> after the loop:
  \<^verbatim>\<open>message = message.slice(matched[0].length)\<close> overwrites the parameter.
\<close>

definition address_check :: "regexp list \<Rightarrow> route \<Rightarrow> jsstring \<Rightarrow> bool \<times> jsstring" where
  "address_check ps r message =
     (case first_prompt ps message of
        Some matched \<Rightarrow> (True, drop (length (snd matched)) message)
      | None \<Rightarrow> (room r = None, message))"

text \<open>
  A match object with its \<^verbatim>\<open>func\<close>: \<^verbatim>\<open>matched[0]\<close> and the handler.
  Lines 129 to 142 collect the command candidates in registration order.
\<close>

type_synonym 'a match = "jsstring \<times> 'a handler"

fun find_commands ::
  "command list \<Rightarrow> route \<Rightarrow> jsstring \<Rightarrow> world \<Rightarrow> jsstring list match list \<times> world" where
  "find_commands [] r message w = ([], w)"
| "find_commands (c # cs) r message w =
     (case trigger c message of
        None \<Rightarrow> find_commands cs r message w
      | Some (i, m0) \<Rightarrow>
          if i = 0 then
            (if core c \<or> \<not> squelched w (room r) then
               (case find_commands cs r message w of
                  (matches, w') \<Rightarrow> ((m0, func c) # matches, w'))
             else find_commands cs r message (w\<lparr>trace := trace w @ [LogNotProcessing]\<rparr>))
          else find_commands cs r message w)"

text \<open>
  Lines 145 to 153. The running best starts as \<^verbatim>\<open>['']\<close>, an array with no
  \<^verbatim>\<open>func\<close> property: its handler is \<open>None\<close>.
\<close>

fun pick_longest ::
  "'a match list \<Rightarrow> jsstring \<times> 'a handler option \<Rightarrow> jsstring \<times> 'a handler option" where
  "pick_longest [] matched = matched"
| "pick_longest (m # ms) matched =
     pick_longest ms
       (if length (fst m) > length (fst matched) then (fst m, Some (snd m)) else matched)"

text \<open>
  Line 156: \<^verbatim>\<open>matched.func(route, this.splitArgs(message.slice(matched[0].length)))\<close>.
  Calling the missing \<^verbatim>\<open>func\<close> of \<^verbatim>\<open>['']\<close> throws a TypeError.
\<close>

definition call_command ::
  "jsstring \<times> jsstring list handler option \<Rightarrow> route \<Rightarrow> jsstring \<Rightarrow> world
     \<Rightarrow> unit outcome \<times> world" where
  "call_command matched r message w =
     (case snd matched of
        None \<Rightarrow> (Threw TypeError_not_a_function, w)
      | Some f \<Rightarrow>
          (case f r (splitArgs (drop (length (fst matched)) message)) w of
             (Threw e, w') \<Rightarrow> (Threw e, w')
           | (Returned b, w') \<Rightarrow> (Returned (), w')))"

text \<open>Lines 166 to 174: every listener whose trigger matches anywhere.\<close>

fun find_listeners :: "listener list \<Rightarrow> jsstring \<Rightarrow> jsstring match list" where
  "find_listeners [] message = []"
| "find_listeners (l # ls) message =
     (case ltrigger l message of
        None \<Rightarrow> find_listeners ls message
      | Some matched \<Rightarrow> (snd matched, lfunc l) # find_listeners ls message)"

text \<open>
  Lines 180 to 182: the comparator handed to \<^verbatim>\<open>Array.prototype.sort\<close> returns a
  boolean. The sort itself is the runtime's: it is a parameter of the model.
\<close>

definition by_length :: "'a match \<Rightarrow> 'a match \<Rightarrow> bool" where
  "by_length a b \<longleftrightarrow> length (fst a) > length (fst b)"

type_synonym 'a array_sort = "('a \<Rightarrow> 'a \<Rightarrow> bool) \<Rightarrow> 'a list \<Rightarrow> 'a list"

text \<open>Lines 184 to 188: the result is \<open>Returned True\<close> when the loop left through
  \<^verbatim>\<open>return\<close>, \<open>Returned False\<close> when it ran to its end.\<close>

fun run_listeners ::
  "jsstring match list \<Rightarrow> route \<Rightarrow> jsstring \<Rightarrow> world \<Rightarrow> bool outcome \<times> world" where
  "run_listeners [] r message w = (Returned False, w)"
| "run_listeners (m # ms) r message w =
     (case snd m r message w of
        (Threw e, w') \<Rightarrow> (Threw e, w')
      | (Returned b, w') \<Rightarrow>
          if b then (Returned True, w') else run_listeners ms r message w')"

text \<open>Lines 164 to 190.\<close>

definition listener_phase ::
  "jsstring match array_sort \<Rightarrow> service \<Rightarrow> route \<Rightarrow> jsstring \<Rightarrow> world
     \<Rightarrow> bool outcome \<times> world" where
  "listener_phase array_sort svc r message w =
     (if \<not> squelched w (room r) then
        run_listeners (array_sort by_length (find_listeners (listeners svc) message)) r message w
      else (Returned False, w))"

text \<open>Lines 194 to 198.\<close>

definition fallback :: "route \<Rightarrow> world \<Rightarrow> world" where
  "fallback r w =
     w\<lparr>trace := trace w @
         [if squelched w (room r) then SentDirect r (js ''?command_but_silenced'') [room r]
          else Sent r (js ''?command_not_found'') []]\<rparr>"

text \<open>The function \<^verbatim>\<open>handleMessage(route, message)\<close> of lines 111 to 200.\<close>

definition handleMessage ::
  "jsstring match array_sort \<Rightarrow> service \<Rightarrow> route \<Rightarrow> jsstring \<Rightarrow> world
     \<Rightarrow> unit outcome \<times> world" where
  "handleMessage array_sort svc r message0 w0 =
     (case address_check (prompts svc) r message0 of
        (isCommand, message) \<Rightarrow>
          (case (if isCommand then find_commands (commands svc) r message w0 else ([], w0)) of
             (matches, w1) \<Rightarrow>
               if matches \<noteq> [] then call_command (pick_longest matches ([], None)) r message w1
               else
                 (case listener_phase array_sort svc r message w1 of
                    (Threw e, w2) \<Rightarrow> (Threw e, w2)
                  | (Returned handled, w2) \<Rightarrow>
                      if handled then (Returned (), w2)
                      else (Returned (), if isCommand then fallback r w2 else w2))))"

text \<open>
  \<^verbatim>\<open>IntentService.prototype.handleMessage\<close>, lines 203 to 216: a fresh domain is
  created, an error callback is registered on it, and the pass runs inside
  \<^verbatim>\<open>handler_domain.run\<close>. \<^verbatim>\<open>run\<close> calls the function and catches nothing: what
  the pass throws leaves the wrapper as it left the pass.
\<close>

definition IntentService_handleMessage ::
  "jsstring match array_sort \<Rightarrow> service \<Rightarrow> route \<Rightarrow> jsstring \<Rightarrow> world
     \<Rightarrow> unit outcome \<times> world" where
  "IntentService_handleMessage array_sort svc r message w =
     handleMessage array_sort svc r message w"

text \<open>
  The error callback of lines 208 to 211, with the message the wrapper was given. The
  arguments of \<^verbatim>\<open>console.log\<close> are evaluated first: \<^verbatim>\<open>er.stack\<close> throws a TypeError
  when \<^verbatim>\<open>er\<close> is \<^verbatim>\<open>null\<close> or \<^verbatim>\<open>undefined\<close>, before anything is logged or sent.
  When and whether the runtime calls the callback is not part of the file.
\<close>

definition domain_on_error :: "route \<Rightarrow> jsstring \<Rightarrow> error \<Rightarrow> world \<Rightarrow> unit outcome \<times> world" where
  "domain_on_error r message er w =
     (if er = ThrownNullish then (Threw TypeError_stack_of_nullish, w)
      else (Returned (),
            w\<lparr>trace := trace w @ [LogUnhandledError message er, Sent r (js ''?generic_error'') []]\<rparr>))"

section \<open>The constructor, the runtime's sort, and sample plugins\<close>

text \<open>
  The constructor builds one prompt per configured name:
  \<^verbatim>\<open>new RegExp('^\@?' + name + '\:? ')\<close>. For a name without regular-expression
  metacharacters the pattern matches an optional \<^verbatim>\<open>@\<close>, the name, an optional
  \<^verbatim>\<open>:\<close> and one space at the start of the text; the alternatives are tried in the
  order of the backtracking (both optional parts are greedy).
\<close>

definition prompt_regexp :: "jsstring \<Rightarrow> regexp" where
  "prompt_regexp name message =
     (case filter (\<lambda>c. take (length c) message = c)
             [64 # name @ [58, 32], 64 # name @ [32], name @ [58, 32], name @ [32]] of
        [] \<Rightarrow> None
      | c # cs \<Rightarrow> Some (0, c))"

definition IntentService :: "jsstring list \<Rightarrow> service" where
  "IntentService responds_to =
     \<lparr>commands = [], listeners = [], prompts = map prompt_regexp responds_to\<rparr>"

definition world_at :: "int \<Rightarrow> world" where
  "world_at t = \<lparr>squelch_timers = Map.empty, clock = t, trace = []\<rparr>"

text \<open>
  Not part of the repository: the insertion sort that V8's \<^verbatim>\<open>Array.prototype.sort\<close>
  ran on short arrays when the file was written. The element \<^verbatim>\<open>a[i]\<close> moves left
  past every \<^verbatim>\<open>a[j]\<close> with \<^verbatim>\<open>comparefn(a[j], element) > 0\<close>, and \<^verbatim>\<open>true > 0\<close>
  holds. \<open>insert_left\<close> works on the sorted part in reverse.
\<close>

fun insert_left :: "('a \<Rightarrow> 'a \<Rightarrow> bool) \<Rightarrow> 'a \<Rightarrow> 'a list \<Rightarrow> 'a list" where
  "insert_left comparefn element [] = [element]"
| "insert_left comparefn element (tmp # left) =
     (if comparefn tmp element then tmp # insert_left comparefn element left
      else element # tmp # left)"

fun insertion_sort_from :: "('a \<Rightarrow> 'a \<Rightarrow> bool) \<Rightarrow> 'a list \<Rightarrow> 'a list \<Rightarrow> 'a list" where
  "insertion_sort_from comparefn left [] = rev left"
| "insertion_sort_from comparefn left (element # rest) =
     insertion_sort_from comparefn (insert_left comparefn element left) rest"

definition v8_insertion_sort :: "'a array_sort" where
  "v8_insertion_sort comparefn a = insertion_sort_from comparefn [] a"

text \<open>Sample patterns for a literal \<open>w\<close>: \<^verbatim>\<open>/^w/\<close>, \<^verbatim>\<open>/w/\<close> and
  \<^verbatim>\<open>/^(w)?/\<close>, which matches the empty string at offset 0 where \<open>w\<close> is not there.\<close>

definition re_prefix :: "jsstring \<Rightarrow> regexp" where
  "re_prefix w message = (if take (length w) message = w then Some (0, w) else None)"

fun re_search_from :: "nat \<Rightarrow> jsstring \<Rightarrow> regexp" where
  "re_search_from i w [] = (if w = [] then Some (i, []) else None)"
| "re_search_from i w (c # cs) =
     (if take (length w) (c # cs) = w then Some (i, w) else re_search_from (Suc i) w cs)"

definition re_search :: "jsstring \<Rightarrow> regexp" where
  "re_search w = re_search_from 0 w"

definition re_optional_prefix :: "jsstring \<Rightarrow> regexp" where
  "re_optional_prefix w message =
     (if take (length w) message = w then Some (0, w) else Some (0, []))"

text \<open>Sample handlers: one that sends a fixed text and returns a fixed value, one that
  sends back what it was given, one that reports its arguments, one that throws.\<close>

definition say :: "jsstring \<Rightarrow> bool \<Rightarrow> 'a handler" where
  "say t result r a w = (Returned result, w\<lparr>trace := trace w @ [Sent r t []]\<rparr>)"

definition echo :: "bool \<Rightarrow> jsstring handler" where
  "echo result r message w = (Returned result, w\<lparr>trace := trace w @ [Sent r message []]\<rparr>)"

definition show_args :: "jsstring list handler" where
  "show_args r args w = (Returned False, w\<lparr>trace := trace w @ [Sent r (js ''args'') (map Some args)]\<rparr>)"

definition throwing :: "error \<Rightarrow> 'a handler" where
  "throwing er r a w = (Threw er, w)"

section \<open>Properties of splitArgs\<close>

lemma trim_blank: "list_all js_whitespace s \<Longrightarrow> trim s = []"
  by (auto simp: trim_def list_all_iff dest: set_dropWhileD)

lemma splitArgs_Nil: "splitArgs [] = [[]]"
  by (simp add: splitArgs_def trim_def straighten_def)

text \<open>
  C10, as stated: \<open>splitArgs\<close> of the empty string is the empty sequence. It is not:
  \<^verbatim>\<open>''.split(' ')\<close> is \<^verbatim>\<open>['']\<close>, and the empty token is pushed as an argument.
\<close>

theorem splitArgs_empty_counterexample: "splitArgs (js '''') \<noteq> []"
  by (simp add: splitArgs_def trim_def straighten_def js_def)

text \<open>
  C10, amended: on the empty string, and on every string of white space only,
  \<open>splitArgs\<close> returns one argument, the empty string.
\<close>

theorem splitArgs_blank: "list_all js_whitespace s \<Longrightarrow> splitArgs s = [[]]"
  by (simp add: splitArgs_def trim_blank straighten_def)

theorem splitArgs_blank_witness:
  "list_all js_whitespace (js '' '' @ [9, 160]) \<and> splitArgs (js '' '' @ [9, 160]) = [[]]"
proof -
  have h: "list_all js_whitespace (js '' '' @ [9, 160])"
    by (simp add: js_def js_whitespace_def)
  from h splitArgs_blank [OF h] show ?thesis by simp
qed

text \<open>The tokenizer on quoted input: a quoted word, a quoted span, and a quote that is
  never closed.\<close>

lemma splitArgs_examples:
  "splitArgs (js ''\"hello\"'') = [js ''hello'']"
  "splitArgs (js ''foo \"bar baz\" qux'') = [js ''foo'', js ''bar baz'', js ''qux'']"
  "splitArgs (js '' foo 'it is fine '') = [js ''foo'', js ''it is fine'']"
  "splitArgs (js ''a  b'') = [js ''a'', js '''', js ''b'']"
  by (simp_all add: splitArgs_def trim_def straighten_def js_def js_whitespace_def)

section \<open>Properties of the squelch table\<close>

text \<open>
  C7, as stated for every non-null id: after \<open>squelch id true\<close> the id is squelched.
  The empty string is a non-null id; the call stores its entry and returns, and
  \<^verbatim>\<open>room && ...\<close> is falsy for it.
\<close>

theorem squelch_empty_id_counterexample:
  "fst (squelch (Some (js '''')) (Some True) (world_at 0)) = Returned ()
   \<and> \<not> squelched (snd (squelch (Some (js '''')) (Some True) (world_at 0))) (Some (js ''''))"
  by (simp add: squelch_def array_put_def array_index_def moment_now_def add_10_minutes_def
        valid_date_def world_at_def room_key_def squelched_def js_def Let_def)

text \<open>
  The id \<^verbatim>\<open>length\<close> names the length of the array that holds the table: at any
  time from 2 to the 32 milliseconds after the epoch on, \<open>squelch\<close> throws a RangeError
  for it and leaves the world as it was.
\<close>

lemma squelch_length_throws:
  "4294967296 \<le> clock w \<Longrightarrow>
     squelch (Some (js ''length'')) flag w = (Threw RangeError_invalid_array_length, w)"
  by (simp add: squelch_def array_put_def moment_now_def add_10_minutes_def room_key_def
        split: option.splits)

text \<open>
  C7, amended to ids other than the empty string and \<^verbatim>\<open>length\<close>, for a table whose
  key \<^verbatim>\<open>__proto__\<close> was never written, and for clock readings and an expiry that are
  valid dates. With \<open>d\<close> the milliseconds gone by since the call: \<open>squelch id true\<close>
  (or with the flag left out) returns, and after it the id is squelched exactly while
  \<open>d < 600000\<close>, so at once and no longer after ten minutes; \<open>squelch id false\<close>
  returns, and after it the id is not squelched at once or later; and an id is squelched
  exactly when it has an entry whose time is strictly after the clock.
\<close>

theorem squelch_window:
  assumes "s \<noteq> []" and "s \<noteq> js ''length''" and "s \<noteq> js ''__proto__''"
    and "squelch_timers w (js ''__proto__'') = None"
    and "valid_date (clock w)" and "valid_date (clock w + 600000)"
  shows "fst (squelch (Some s) (Some True) w) = Returned ()
       \<and> (squelched ((snd (squelch (Some s) (Some True) w))\<lparr>clock := clock w + d\<rparr>) (Some s)
            \<longleftrightarrow> d < 600000)
       \<and> fst (squelch (Some s) None w) = Returned ()
       \<and> (squelched ((snd (squelch (Some s) None w))\<lparr>clock := clock w + d\<rparr>) (Some s)
            \<longleftrightarrow> d < 600000)
       \<and> fst (squelch (Some s) (Some False) w) = Returned ()
       \<and> (squelched ((snd (squelch (Some s) (Some False) w))\<lparr>clock := clock w + d\<rparr>) (Some s)
            \<longleftrightarrow> d < 0)
       \<and> (squelched w (Some s) \<longleftrightarrow> (\<exists>t. squelch_timers w s = Some t \<and> clock w < t))"
proof -
  have put: "array_put s time (squelch_timers w) = Inr tbl \<Longrightarrow> tbl s = time" for time tbl
    using assms(2) by (auto simp: array_put_def split: option.splits if_splits)
  have ok: "\<exists>tbl. array_put s time (squelch_timers w) = Inr tbl" for time
    using assms(2) by (simp add: array_put_def split: option.splits)
  have now: "moment_now w = Some (clock w)"
    using assms(5) by (simp add: moment_now_def)
  have later: "add_10_minutes (Some (clock w)) = Some (clock w + 600000)"
    using assms(6) by (simp add: add_10_minutes_def)
  have on: "fst (squelch (Some s) flag w) = Returned ()
      \<and> squelch_timers (snd (squelch (Some s) flag w)) s =
          (if flag = Some False then Some (clock w) else Some (clock w + 600000))" for flag
  proof -
    let ?time = "if flag = Some False then moment_now w else add_10_minutes (moment_now w)"
    obtain tbl where t: "array_put s ?time (squelch_timers w) = Inr tbl"
      using ok by blast
    have "tbl s = ?time" using t by (rule put)
    moreover have "squelch (Some s) flag w =
        (Returned (), w\<lparr>squelch_timers := tbl, trace := trace w @ [LogSquelchedUntil (Some s) ?time]\<rparr>)"
      using t by (cases flag) (auto simp: squelch_def room_key_def Let_def)
    ultimately show ?thesis
      by (simp add: now later)
  qed
  have rd: "squelch_timers w' s = Some t \<Longrightarrow> squelched w' (Some s) \<longleftrightarrow> clock w' < t" for w' t
    using assms(1) by (simp add: squelched_def)
  show ?thesis
    using on [of "Some True"] on [of None] on [of "Some False"] assms(1)
    by (auto simp: rd) (auto simp: squelched_def split: option.splits)
qed

theorem squelch_window_witness:
  "js ''lobby'' \<noteq> [] \<and> js ''lobby'' \<noteq> js ''length'' \<and> js ''lobby'' \<noteq> js ''__proto__''
   \<and> squelch_timers (world_at 1000) (js ''__proto__'') = None
   \<and> valid_date (clock (world_at 1000)) \<and> valid_date (clock (world_at 1000) + 600000)
   \<and> squelched (snd (squelch (Some (js ''lobby'')) (Some True) (world_at 1000))) (Some (js ''lobby''))
   \<and> \<not> squelched ((snd (squelch (Some (js ''lobby'')) (Some True) (world_at 1000)))\<lparr>clock := 601001\<rparr>)
         (Some (js ''lobby''))
   \<and> \<not> squelched (snd (squelch (Some (js ''lobby'')) (Some False) (world_at 1000))) (Some (js ''lobby''))"
proof -
  have h: "js ''lobby'' \<noteq> []" "js ''lobby'' \<noteq> js ''length''" "js ''lobby'' \<noteq> js ''__proto__''"
    by (simp_all add: js_def)
  have t: "squelch_timers (world_at 1000) (js ''__proto__'') = None"
    by (simp add: world_at_def)
  have v: "valid_date (clock (world_at 1000))" "valid_date (clock (world_at 1000) + 600000)"
    by (simp_all add: valid_date_def world_at_def)
  from squelch_window [OF h t v, of 0] squelch_window [OF h t v, of 600001] h t v
  show ?thesis
    by (simp add: squelch_def array_put_def array_index_def moment_now_def add_10_minutes_def
          valid_date_def world_at_def room_key_def squelched_def js_def Let_def)
qed

section \<open>The listener loop\<close>

lemma run_listeners_append:
  "run_listeners (xs @ ys) r message w =
     (case run_listeners xs r message w of
        (Returned False, w1) \<Rightarrow> run_listeners ys r message w1
      | other \<Rightarrow> other)"
  by (induction xs arbitrary: w) (auto split: prod.splits outcome.splits bool.splits)




section \<open>The command phase\<close>

text \<open>Logging and sending leave the squelch state of every room as it was.\<close>

lemma squelched_trace: "squelched (w\<lparr>trace := t\<rparr>) r = squelched w r"
  by (simp add: squelched_def split: option.splits)

lemma find_commands_fst_trace:
  "fst (find_commands cs r message (w\<lparr>trace := t\<rparr>)) = fst (find_commands cs r message w)"
proof (induction cs arbitrary: w t)
  case Nil
  show ?case by simp
next
  case (Cons c cs)
  show ?case
  proof (cases "trigger c message")
    case None
    then show ?thesis by (simp add: Cons.IH)
  next
    case (Some p)
    obtain i m0 where p: "p = (i, m0)" by (cases p)
    have a: "fst (find_commands cs r message (w\<lparr>trace := t\<rparr>)) = fst (find_commands cs r message w)"
      by (rule Cons.IH)
    have b: "fst (find_commands cs r message (w\<lparr>trace := t @ [LogNotProcessing]\<rparr>)) = fst (find_commands cs r message w)"
      by (rule Cons.IH)
    have c: "fst (find_commands cs r message (w\<lparr>trace := trace w @ [LogNotProcessing]\<rparr>)) = fst (find_commands cs r message w)"
      by (rule Cons.IH)
    show ?thesis using a b c Some p
      by (simp add: split_beta squelched_trace)
  qed
qed

lemma find_commands_world:
  "squelch_timers (snd (find_commands cs r message w)) = squelch_timers w
   \<and> clock (snd (find_commands cs r message w)) = clock w"
proof (induction cs arbitrary: w)
  case Nil
  show ?case by simp
next
  case (Cons c cs)
  show ?case
  proof (cases "trigger c message")
    case None
    then show ?thesis by (simp add: Cons.IH)
  next
    case (Some p)
    obtain i m0 where p: "p = (i, m0)" by (cases p)
    show ?thesis using Some p Cons.IH [of w] Cons.IH [of "w\<lparr>trace := trace w @ [LogNotProcessing]\<rparr>"]
      by (simp add: split_beta)
  qed
qed

lemma squelched_cong:
  "squelch_timers w' = squelch_timers w \<Longrightarrow> clock w' = clock w \<Longrightarrow> squelched w' x = squelched w x"
  by (simp add: squelched_def split: option.splits)

lemma find_commands_squelched:
  "squelched (snd (find_commands cs r message w)) x = squelched w x"
  by (rule squelched_cong) (simp_all add: find_commands_world)

lemma find_commands_filter:
  "fst (find_commands cs r message w) =
     map (\<lambda>c. (snd (the (trigger c message)), func c))
       (filter (\<lambda>c. (\<exists>m0. trigger c message = Some (0, m0))
                     \<and> (core c \<or> \<not> squelched w (room r))) cs)"
proof (induction cs)
  case Nil
  show ?case by simp
next
  case (Cons c cs)
  show ?case
  proof (cases "trigger c message")
    case None
    then show ?thesis by (simp add: Cons.IH)
  next
    case (Some p)
    obtain i m0 where p: "p = (i, m0)" by (cases p)
    show ?thesis using Some p Cons.IH
      by (simp add: split_beta find_commands_fst_trace)
  qed
qed


lemma handleMessage_no_command:
  assumes "address_check (prompts svc) r message0 = (isCommand, message)"
    and "(if isCommand then find_commands (commands svc) r message w else ([], w)) = ([], w1)"
  shows "handleMessage srt svc r message0 w =
     (case listener_phase srt svc r message w1 of
        (Threw e, w2) \<Rightarrow> (Threw e, w2)
      | (Returned handled, w2) \<Rightarrow>
          if handled then (Returned (), w2)
          else (Returned (), if isCommand then fallback r w2 else w2))"
  using assms by (simp add: handleMessage_def)

lemma handleMessage_command:
  assumes "address_check (prompts svc) r message0 = (True, message)"
    and "find_commands (commands svc) r message w = (ms, w1)"
    and "ms \<noteq> []"
  shows "handleMessage srt svc r message0 w = call_command (pick_longest ms ([], None)) r message w1"
  using assms by (simp add: handleMessage_def)

section \<open>Fault isolation\<close>

text \<open>
  A throw of the selected command handler, or of a listener handler after the candidates
  before it returned falsy values, leaves the pass and the wrapper alike, with the world
  as the handler left it: the wrapper itself catches nothing.
\<close>

lemma handler_throw_leaves_wrapper:
  "(address_check (prompts svc) r message0 = (True, message)
      \<and> find_commands (commands svc) r message w = (ms, w1)
      \<and> pick_longest ms ([], None) = (m0, Some f)
      \<and> f r (splitArgs (drop (length m0) message)) w1 = (Threw er, w2)
    \<longrightarrow> IntentService_handleMessage srt svc r message0 w = (Threw er, w2))
   \<and> (address_check (prompts svc) r message0 = (isCommand, message)
      \<and> (if isCommand then find_commands (commands svc) r message w else ([], w)) = ([], w1)
      \<and> \<not> squelched w1 (room r)
      \<and> srt by_length (find_listeners (listeners svc) message) = before @ m # after
      \<and> run_listeners before r message w1 = (Returned False, w3)
      \<and> snd m r message w3 = (Threw er, w2)
    \<longrightarrow> IntentService_handleMessage srt svc r message0 w = (Threw er, w2))"
proof (intro conjI impI)
  assume a: "address_check (prompts svc) r message0 = (True, message)
      \<and> find_commands (commands svc) r message w = (ms, w1)
      \<and> pick_longest ms ([], None) = (m0, Some f)
      \<and> f r (splitArgs (drop (length m0) message)) w1 = (Threw er, w2)"
  then have "ms \<noteq> []" by auto
  with a have "handleMessage srt svc r message0 w = call_command (m0, Some f) r message w1"
    by (simp add: handleMessage_command [where message = message and ms = ms and ?w1.0 = w1])
  with a show "IntentService_handleMessage srt svc r message0 w = (Threw er, w2)"
    by (simp add: call_command_def IntentService_handleMessage_def)
next
  assume a: "address_check (prompts svc) r message0 = (isCommand, message)
      \<and> (if isCommand then find_commands (commands svc) r message w else ([], w)) = ([], w1)
      \<and> \<not> squelched w1 (room r)
      \<and> srt by_length (find_listeners (listeners svc) message) = before @ m # after
      \<and> run_listeners before r message w1 = (Returned False, w3)
      \<and> snd m r message w3 = (Threw er, w2)"
  then have "listener_phase srt svc r message w1 = (Threw er, w2)"
    by (simp add: listener_phase_def run_listeners_append)
  with a show "IntentService_handleMessage srt svc r message0 w = (Threw er, w2)"
    by (simp add: IntentService_handleMessage_def
          handleMessage_no_command [where isCommand = isCommand and message = message and ?w1.0 = w1])
qed

text \<open>
  Given an error other than a thrown \<^verbatim>\<open>null\<close> or \<^verbatim>\<open>undefined\<close>, the error callback
  logs it once with the message as it came in and sends one generic reply on the route.
\<close>

lemma domain_on_error_reports:
  "er \<noteq> ThrownNullish \<Longrightarrow>
     domain_on_error r message er w =
       (Returned (),
        w\<lparr>trace := trace w @ [LogUnhandledError message er, Sent r (js ''?generic_error'') []]\<rparr>)"
  by (simp add: domain_on_error_def)

text \<open>
  C4 at its failing input: the handler of the matched command does \<^verbatim>\<open>throw null\<close>.
  The throw leaves the wrapper, and the error callback, given that error, throws a
  TypeError on \<^verbatim>\<open>er.stack\<close>: nothing is logged and no generic reply is sent.
\<close>

theorem handler_throws_null:
  "IntentService_handleMessage v8_insertion_sort
     ((IntentService [js ''bot''])
        \<lparr>commands := [\<lparr>trigger = re_prefix (js ''boom''), core = False, func = throwing ThrownNullish\<rparr>]\<rparr>)
     \<lparr>room = Some (js ''lobby'')\<rparr> (js ''bot boom'') (world_at 0)
   = (Threw ThrownNullish, world_at 0)
   \<and> domain_on_error \<lparr>room = Some (js ''lobby'')\<rparr> (js ''bot boom'') ThrownNullish (world_at 0)
   = (Threw TypeError_stack_of_nullish, world_at 0)"
  by (simp add: IntentService_handleMessage_def handleMessage_def address_check_def
        IntentService_def prompt_regexp_def js_def re_prefix_def call_command_def
        squelched_def world_at_def throwing_def domain_on_error_def)

section \<open>The listener phase and the fallback reply\<close>





text \<open>
  C2, as stated: the listeners work on the text as it came in. Here the message
  \<^verbatim>\<open>bot hi\<close> begins with a prompt; a listener on \<^verbatim>\<open>/bot/\<close> would match the
  text as it came in and send it back, but only the listener on \<^verbatim>\<open>/hi/\<close> matches,
  and what its handler is given and sends back is \<^verbatim>\<open>hi\<close>.
\<close>

theorem listeners_text_counterexample:
  "first_prompt
     (prompts ((IntentService [js ''bot''])
        \<lparr>listeners := [\<lparr>ltrigger = re_search (js ''bot''), lfunc = echo True\<rparr>,
                        \<lparr>ltrigger = re_search (js ''hi''), lfunc = echo True\<rparr>]\<rparr>))
     (js ''bot hi'') = Some (0, js ''bot '')
   \<and> handleMessage v8_insertion_sort
        ((IntentService [js ''bot''])
           \<lparr>listeners := [\<lparr>ltrigger = re_search (js ''bot''), lfunc = echo True\<rparr>,
                           \<lparr>ltrigger = re_search (js ''hi''), lfunc = echo True\<rparr>]\<rparr>)
        \<lparr>room = Some (js ''lobby'')\<rparr> (js ''bot hi'') (world_at 0)
      = (Returned (), (world_at 0)\<lparr>trace := [Sent \<lparr>room = Some (js ''lobby'')\<rparr> (js ''hi'') []]\<rparr>)"
  by (simp add: handleMessage_def address_check_def IntentService_def prompt_regexp_def
        js_def listener_phase_def squelched_def world_at_def re_search_def
        v8_insertion_sort_def echo_def)

text \<open>
  C2, amended: for a message that begins with a configured prompt, the listener triggers
  are tested against the text with the prompt removed, the same text the command
  triggers were tested against, and the listener handlers are given that text.
\<close>

theorem listeners_text:
  "first_prompt (prompts svc) message0 = Some (i, m0)
   \<and> find_commands (commands svc) r (drop (length m0) message0) w = ([], w1)
   \<and> \<not> squelched w1 (room r)
   \<longrightarrow> handleMessage srt svc r message0 w =
        (case run_listeners
                (srt by_length (find_listeners (listeners svc) (drop (length m0) message0)))
                r (drop (length m0) message0) w1 of
           (Threw e, w2) \<Rightarrow> (Threw e, w2)
         | (Returned handled, w2) \<Rightarrow> (Returned (), if handled then w2 else fallback r w2))"
proof
  assume a: "first_prompt (prompts svc) message0 = Some (i, m0)
   \<and> find_commands (commands svc) r (drop (length m0) message0) w = ([], w1)
   \<and> \<not> squelched w1 (room r)"
  then have "address_check (prompts svc) r message0 = (True, drop (length m0) message0)"
    by (simp add: address_check_def)
  with a show "handleMessage srt svc r message0 w =
        (case run_listeners
                (srt by_length (find_listeners (listeners svc) (drop (length m0) message0)))
                r (drop (length m0) message0) w1 of
           (Threw e, w2) \<Rightarrow> (Threw e, w2)
         | (Returned handled, w2) \<Rightarrow> (Returned (), if handled then w2 else fallback r w2))"
    by (simp add: handleMessage_no_command [where isCommand = True
          and message = "drop (length m0) message0" and ?w1.0 = w1] listener_phase_def
        split: prod.splits outcome.splits)
qed

theorem listeners_text_witness:
  "handleMessage v8_insertion_sort
     ((IntentService [js ''fritbot'', js ''bot''])
        \<lparr>listeners := [\<lparr>ltrigger = re_search (js ''hello''), lfunc = echo False\<rparr>]\<rparr>)
     \<lparr>room = Some (js ''lobby'')\<rparr> (js ''@bot: hello there'') (world_at 0)
   = (Returned (),
      (world_at 0)\<lparr>trace := [Sent \<lparr>room = Some (js ''lobby'')\<rparr> (js ''hello there'') [],
                             Sent \<lparr>room = Some (js ''lobby'')\<rparr> (js ''?command_not_found'') []]\<rparr>)"
proof -
  let ?r = "\<lparr>room = Some (js ''lobby'')\<rparr>"
  let ?svc = "(IntentService [js ''fritbot'', js ''bot''])
        \<lparr>listeners := [\<lparr>ltrigger = re_search (js ''hello''), lfunc = echo False\<rparr>]\<rparr>"
  have fp: "first_prompt (prompts ?svc) (js ''@bot: hello there'') = Some (0, js ''@bot: '')"
    by (simp add: IntentService_def prompt_regexp_def js_def)
  have dr: "drop (length (js ''@bot: '')) (js ''@bot: hello there'') = js ''hello there''"
    by (simp add: js_def)
  have fc: "find_commands (commands ?svc) ?r (js ''hello there'') (world_at 0) = ([], world_at 0)"
    by (simp add: IntentService_def)
  have nsq: "\<not> squelched (world_at 0) (room ?r)"
    by (simp add: squelched_def world_at_def js_def)
  have rl: "run_listeners (v8_insertion_sort by_length (find_listeners (listeners ?svc) (js ''hello there'')))
              ?r (js ''hello there'') (world_at 0)
      = (Returned False, (world_at 0)\<lparr>trace := [Sent ?r (js ''hello there'') []]\<rparr>)"
    by (simp add: re_search_def js_def v8_insertion_sort_def echo_def world_at_def)
  from listeners_text [where svc = ?svc and r = ?r and ?message0.0 = "js ''@bot: hello there''"
         and i = 0 and ?m0.0 = "js ''@bot: ''" and w = "world_at 0" and ?w1.0 = "world_at 0"
         and srt = v8_insertion_sort]
       fp fc nsq
  have "handleMessage v8_insertion_sort ?svc ?r (js ''@bot: hello there'') (world_at 0)
      = (case run_listeners (v8_insertion_sort by_length (find_listeners (listeners ?svc) (js ''hello there'')))
              ?r (js ''hello there'') (world_at 0) of
           (Threw e, w2) \<Rightarrow> (Threw e, w2)
         | (Returned handled, w2) \<Rightarrow> (Returned (), if handled then w2 else fallback ?r w2))"
    by (simp only: dr simp_thms)
  then show ?thesis
    by (simp only: rl) (simp add: fallback_def squelched_def world_at_def js_def)
qed

section \<open>Choosing the command, and the order of the listeners\<close>

lemma pick_longest_append:
  "pick_longest (xs @ ys) best = pick_longest ys (pick_longest xs best)"
  by (induction xs arbitrary: best) simp_all

lemma pick_longest_keeps:
  "\<forall>x \<in> set ms. length (fst x) \<le> length (fst best) \<Longrightarrow> pick_longest ms best = best"
  by (induction ms) auto

lemma pick_longest_below:
  "length (fst best) < n \<Longrightarrow> \<forall>x \<in> set ms. length (fst x) < n
     \<Longrightarrow> length (fst (pick_longest ms best)) < n"
  by (induction ms arbitrary: best) auto

text \<open>
  Where some candidate has a match that is not empty, the loop of lines 149 to 153 picks
  the first candidate of the greatest length: the candidates before it are shorter, those
  after it are not longer.
\<close>

lemma pick_longest_first_longest:
  assumes "fst m \<noteq> []"
    and "\<forall>x \<in> set before. length (fst x) < length (fst m)"
    and "\<forall>x \<in> set after. length (fst x) \<le> length (fst m)"
  shows "pick_longest (before @ m # after) ([], None) = (fst m, Some (snd m))"
proof -
  have "length (fst (pick_longest before ([], None :: 'a handler option))) < length (fst m)"
    using assms(1,2) by (intro pick_longest_below) simp_all
  then have "pick_longest (m # after) (pick_longest before ([], None)) =
      pick_longest after (fst m, Some (snd m))"
    by simp
  also have "\<dots> = (fst m, Some (snd m))"
    using assms(3) by (intro pick_longest_keeps) simp
  finally show ?thesis
    by (simp add: pick_longest_append)
qed

text \<open>
  Two commands match \<^verbatim>\<open>help me "with this" now\<close>, on 4 and on 7 code units: the
  handler of the longer match is called, with the rest of the text split into arguments.
\<close>

lemma longest_command_example:
  "handleMessage v8_insertion_sort
     ((IntentService [js ''bot''])
        \<lparr>commands := [\<lparr>trigger = re_prefix (js ''help''), core = False, func = say (js ''short'') True\<rparr>,
                      \<lparr>trigger = re_prefix (js ''help me''), core = False, func = show_args\<rparr>]\<rparr>)
     \<lparr>room = Some (js ''lobby'')\<rparr> (js ''bot: help me \"with this\" now'') (world_at 0)
   = (Returned (),
      (world_at 0)\<lparr>trace := [Sent \<lparr>room = Some (js ''lobby'')\<rparr> (js ''args'')
                               [Some (js ''with this''), Some (js ''now'')]]\<rparr>)"
  by (simp add: handleMessage_def address_check_def IntentService_def prompt_regexp_def
        js_def re_prefix_def call_command_def squelched_def world_at_def show_args_def
        splitArgs_def trim_def straighten_def js_whitespace_def)

text \<open>
  For a flagged message with a candidate whose match is not empty, the handler called is
  that of the first candidate of the greatest length, whatever the number of commands.
\<close>

lemma handleMessage_first_longest:
  assumes "address_check (prompts svc) r message0 = (True, message)"
    and "find_commands (commands svc) r message w = (before @ (m0, f) # after, w1)"
    and "m0 \<noteq> []"
    and "\<forall>x \<in> set before. length (fst x) < length m0"
    and "\<forall>x \<in> set after. length (fst x) \<le> length m0"
  shows "handleMessage srt svc r message0 w = call_command (m0, Some f) r message w1"
proof -
  have "pick_longest (before @ (m0, f) # after) ([], None) = (m0, Some f)"
    using pick_longest_first_longest [of "(m0, f)" before after] assms(3-5) by simp
  with assms(1,2) show ?thesis
    by (simp add: handleMessage_command [where message = message
          and ms = "before @ (m0, f) # after" and ?w1.0 = w1])
qed

text \<open>
  C6 at its failing input: the room is squelched and one command is registered, with the
  trigger \<^verbatim>\<open>/^(please)?/\<close>, which matches the empty string at offset 0 of
  \<^verbatim>\<open>hello\<close>. Registered as not core it is no candidate: the pass logs, calls nothing
  and sends the silenced reply. Registered as core, with the same trigger, it is the one
  candidate, and should be called: the pass throws the TypeError and calls nothing.
\<close>

theorem core_command_empty_match:
  "squelched ((world_at 0)\<lparr>squelch_timers := [js ''lobby'' \<mapsto> 5]\<rparr>) (Some (js ''lobby''))
   \<and> handleMessage v8_insertion_sort
        ((IntentService [js ''bot''])
           \<lparr>commands := [\<lparr>trigger = re_optional_prefix (js ''please''), core = False,
                           func = say (js ''at your service'') True\<rparr>]\<rparr>)
        \<lparr>room = Some (js ''lobby'')\<rparr> (js ''bot hello'')
        ((world_at 0)\<lparr>squelch_timers := [js ''lobby'' \<mapsto> 5]\<rparr>)
      = (Returned (),
         (world_at 0)\<lparr>squelch_timers := [js ''lobby'' \<mapsto> 5],
            trace := [LogNotProcessing,
                      SentDirect \<lparr>room = Some (js ''lobby'')\<rparr> (js ''?command_but_silenced'')
                        [Some (js ''lobby'')]]\<rparr>)
   \<and> fst (find_commands
          [\<lparr>trigger = re_optional_prefix (js ''please''), core = True,
             func = say (js ''at your service'') True\<rparr>]
          \<lparr>room = Some (js ''lobby'')\<rparr> (js ''hello'')
          ((world_at 0)\<lparr>squelch_timers := [js ''lobby'' \<mapsto> 5]\<rparr>))
      = [([], say (js ''at your service'') True)]
   \<and> handleMessage v8_insertion_sort
        ((IntentService [js ''bot''])
           \<lparr>commands := [\<lparr>trigger = re_optional_prefix (js ''please''), core = True,
                           func = say (js ''at your service'') True\<rparr>]\<rparr>)
        \<lparr>room = Some (js ''lobby'')\<rparr> (js ''bot hello'')
        ((world_at 0)\<lparr>squelch_timers := [js ''lobby'' \<mapsto> 5]\<rparr>)
      = (Threw TypeError_not_a_function, (world_at 0)\<lparr>squelch_timers := [js ''lobby'' \<mapsto> 5]\<rparr>)"
  by (simp add: handleMessage_def address_check_def IntentService_def prompt_regexp_def
        js_def re_optional_prefix_def call_command_def listener_phase_def fallback_def
        squelched_def world_at_def)

text \<open>Where every candidate matched the empty string, the running best stays
  \<^verbatim>\<open>['']\<close>, which has no handler.\<close>

lemma pick_longest_all_empty:
  "\<forall>x \<in> set ms. fst x = [] \<Longrightarrow> pick_longest ms ([], None) = ([], None)"
  by (intro pick_longest_keeps) simp

text \<open>
  C5 at its failing input: one registered command whose trigger \<^verbatim>\<open>/^(please)?/\<close>
  matches the empty string at offset 0 of \<^verbatim>\<open>hello\<close>. It is the only candidate, so
  its handler should be called; the pass throws the TypeError instead and calls nothing.
\<close>

theorem longest_command_empty_match:
  "fst (find_commands
          [\<lparr>trigger = re_optional_prefix (js ''please''), core = True, func = say (js ''at your service'') True\<rparr>]
          \<lparr>room = Some (js ''lobby'')\<rparr> (js ''hello'') (world_at 0))
     = [([], say (js ''at your service'') True)]
   \<and> handleMessage v8_insertion_sort
        ((IntentService [js ''bot''])
           \<lparr>commands := [\<lparr>trigger = re_optional_prefix (js ''please''), core = True,
                           func = say (js ''at your service'') True\<rparr>]\<rparr>)
        \<lparr>room = Some (js ''lobby'')\<rparr> (js ''bot hello'') (world_at 0)
      = (Threw TypeError_not_a_function, world_at 0)"
  by (simp add: handleMessage_def address_check_def IntentService_def prompt_regexp_def
        js_def re_optional_prefix_def call_command_def)

text \<open>
  C9 at its failing input: a direct message, two commands whose triggers both match the
  empty string at offset 0. No handler is called; the matching code itself throws, the
  throw leaves the wrapper too, and the error callback, given that error, logs it and
  sends the generic reply.
\<close>

theorem dispatch_not_total:
  "handleMessage v8_insertion_sort
     ((IntentService [js ''bot''])
        \<lparr>commands := [\<lparr>trigger = re_optional_prefix (js ''please''), core = False, func = say (js ''one'') True\<rparr>,
                      \<lparr>trigger = re_optional_prefix (js ''kindly''), core = False, func = say (js ''two'') True\<rparr>]\<rparr>)
     \<lparr>room = None\<rparr> (js ''hello'') (world_at 0)
   = (Threw TypeError_not_a_function, world_at 0)
   \<and> IntentService_handleMessage v8_insertion_sort
     ((IntentService [js ''bot''])
        \<lparr>commands := [\<lparr>trigger = re_optional_prefix (js ''please''), core = False, func = say (js ''one'') True\<rparr>,
                      \<lparr>trigger = re_optional_prefix (js ''kindly''), core = False, func = say (js ''two'') True\<rparr>]\<rparr>)
     \<lparr>room = None\<rparr> (js ''hello'') (world_at 0)
   = (Threw TypeError_not_a_function, world_at 0)
   \<and> domain_on_error \<lparr>room = None\<rparr> (js ''hello'') TypeError_not_a_function (world_at 0)
   = (Returned (),
      (world_at 0)\<lparr>trace := [LogUnhandledError (js ''hello'') TypeError_not_a_function,
                             Sent \<lparr>room = None\<rparr> (js ''?generic_error'') []]\<rparr>)"
  by (simp add: IntentService_handleMessage_def handleMessage_def address_check_def
        IntentService_def prompt_regexp_def js_def re_optional_prefix_def call_command_def
        squelched_def world_at_def domain_on_error_def)

lemma insert_left_descending:
  "sorted_wrt (\<lambda>a b. length (fst a) \<ge> length (fst b)) left
     \<Longrightarrow> sorted_wrt (\<lambda>a b. length (fst a) \<ge> length (fst b)) (insert_left by_length element left)
       \<and> set (insert_left by_length element left) = insert element (set left)"
  by (induction left) (auto simp: by_length_def)

lemma insertion_sort_from_ascending:
  "sorted_wrt (\<lambda>a b. length (fst a) \<ge> length (fst b)) left
     \<Longrightarrow> sorted_wrt (\<lambda>a b. length (fst a) \<le> length (fst b)) (insertion_sort_from by_length left a)"
proof (induction a arbitrary: left)
  case Nil
  then show ?case by (simp add: sorted_wrt_rev)
next
  case (Cons element rest)
  then show ?case by (simp add: insert_left_descending)
qed

text \<open>
  With the comparator of line 181, the insertion sort leaves the candidates in ascending
  order of match length: the longest match is tried last.
\<close>

lemma v8_insertion_sort_ascending:
  "sorted_wrt (\<lambda>a b. length (fst a) \<le> length (fst b)) (v8_insertion_sort by_length ms)"
  by (simp add: v8_insertion_sort_def insertion_sort_from_ascending)

text \<open>
  C3 at its failing input: two listeners match \<^verbatim>\<open>hello world\<close>, one on 5 code units
  and one on 11, and both return false. The handler of the shorter match is called first:
  with the insertion sort in either registration order, and with a sort that leaves the
  array as it is when the shorter one was registered first.
\<close>

theorem listener_order_shortest_first:
  "handleMessage v8_insertion_sort
     ((IntentService [js ''bot''])
        \<lparr>listeners := [\<lparr>ltrigger = re_search (js ''hello''), lfunc = say (js ''short'') False\<rparr>,
                       \<lparr>ltrigger = re_search (js ''hello world''), lfunc = say (js ''long'') False\<rparr>]\<rparr>)
     \<lparr>room = Some (js ''lobby'')\<rparr> (js ''hello world'') (world_at 0)
   = (Returned (),
      (world_at 0)\<lparr>trace := [Sent \<lparr>room = Some (js ''lobby'')\<rparr> (js ''short'') [],
                             Sent \<lparr>room = Some (js ''lobby'')\<rparr> (js ''long'') []]\<rparr>)
   \<and> handleMessage v8_insertion_sort
     ((IntentService [js ''bot''])
        \<lparr>listeners := [\<lparr>ltrigger = re_search (js ''hello world''), lfunc = say (js ''long'') False\<rparr>,
                       \<lparr>ltrigger = re_search (js ''hello''), lfunc = say (js ''short'') False\<rparr>]\<rparr>)
     \<lparr>room = Some (js ''lobby'')\<rparr> (js ''hello world'') (world_at 0)
   = (Returned (),
      (world_at 0)\<lparr>trace := [Sent \<lparr>room = Some (js ''lobby'')\<rparr> (js ''short'') [],
                             Sent \<lparr>room = Some (js ''lobby'')\<rparr> (js ''long'') []]\<rparr>)
   \<and> handleMessage (\<lambda>comparefn a. a)
     ((IntentService [js ''bot''])
        \<lparr>listeners := [\<lparr>ltrigger = re_search (js ''hello''), lfunc = say (js ''short'') False\<rparr>,
                       \<lparr>ltrigger = re_search (js ''hello world''), lfunc = say (js ''long'') False\<rparr>]\<rparr>)
     \<lparr>room = Some (js ''lobby'')\<rparr> (js ''hello world'') (world_at 0)
   = (Returned (),
      (world_at 0)\<lparr>trace := [Sent \<lparr>room = Some (js ''lobby'')\<rparr> (js ''short'') [],
                             Sent \<lparr>room = Some (js ''lobby'')\<rparr> (js ''long'') []]\<rparr>)"
  by (simp add: handleMessage_def address_check_def IntentService_def prompt_regexp_def
        js_def listener_phase_def squelched_def world_at_def re_search_def
        v8_insertion_sort_def by_length_def say_def)

end
